theory Spec2Isabelle
  imports Main "HOL-Library.Char_ord" "HOL-Library.List_Lexorder"
begin

section \<open>The bun:sqlite cache store\<close>

text \<open>
  A shallow embedding of the TypeScript store \<^verbatim>\<open>bunSqliteStore\<close>: one SQLite table of
  rows \<^verbatim>\<open>(key, val, created_at, expire_at)\<close>, a serializer pair chosen at construction,
  a default time to live, a cacheability predicate and the time of the last purge.

  What the embedding makes explicit:
  \<^item> \<^verbatim>\<open>Date.now()\<close> is an input. Every operation takes, in the order the source reads
    the clock, the readings it consumes (epoch milliseconds, as \<open>int\<close>).
  \<^item> A rejected promise is the left summand of the result, a resolved one the right.
  \<^item> The table is the list of its rows in insertion order. \<^verbatim>\<open>INSERT OR REPLACE\<close> on the
    primary key removes the row of that key and appends the new one.
  \<^item> JavaScript numbers are taken to be integers (seconds, milliseconds), in the range
    where double arithmetic is exact.
  \<^item> \<^verbatim>\<open>JSON.stringify\<close>, \<^verbatim>\<open>JSON.parse\<close> and the cbor-x functions belong to the runtime
    and to a library, so the serializer pair is a parameter of the store: two
    functions that return a payload or a value, or throw.
  \<^item> The string conversion of a template literal belongs to the runtime as well. The
    operations that build the message of \<^verbatim>\<open>NoCacheableError\<close> take it as the parameter
    \<open>str\<close>: it returns the text of a value or throws.
  \<^item> The SQLite engine is assumed to execute every well-formed statement.

  The primary key keeps the keys of a table distinct. No theorem below needs that:
  where a row of a key is named, it is the first row of that key.
\<close>

subsection \<open>Values, rows, serializers\<close>

text \<open>JavaScript values, as far as the store tells them apart.\<close>

datatype jsval =
    JUndefined
  | JNull
  | JFunction
  | JSymbol
  | JBool bool
  | JNum int
  | JBigInt int
  | JStr string
  | JArr "jsval list"
  | JObj "(string \<times> jsval) list"

text \<open>\<^verbatim>\<open>interface CacheRow\<close>; the payload type \<open>'p\<close> is what the serializer produces.\<close>

record 'p CacheRow =
  key :: string
  val :: 'p
  created_at :: int
  expire_at :: int

text \<open>
  An entry of the \<^verbatim>\<open>serializers\<close> table. \<open>Inl msg\<close> is an exception thrown by the
  function, with its message.
\<close>

record 'p serializer =
  serialize :: "jsval \<Rightarrow> string + 'p"
  deserialize :: "'p \<Rightarrow> string + jsval"

text \<open>
  What an operation can reject with: \<^verbatim>\<open>NoCacheableError\<close> with its message, an
  exception thrown by the serializer pair or by the string conversion, or an error
  of the engine.
\<close>

datatype error =
    NoCacheableError string
  | Thrown string
  | SqliteError string

text \<open>
  \<^verbatim>\<open>throw new NoCacheableError(`"${value}" is not a cacheable value`)\<close>: the template
  literal is evaluated first, and when the value has no string conversion its
  exception is what is thrown.
\<close>

definition throw_NoCacheableError :: "(jsval \<Rightarrow> string + string) \<Rightarrow> jsval \<Rightarrow> error" where
  "throw_NoCacheableError str v =
     (case str v of
        Inl msg \<Rightarrow> Thrown msg
      | Inr text \<Rightarrow> NoCacheableError ([CHR 0x22] @ text @ [CHR 0x22] @ '' is not a cacheable value''))"

subsection \<open>Construction\<close>

text \<open>
  The closure state of \<^verbatim>\<open>bunSqliteStore\<close>: the constants \<^verbatim>\<open>serializerAdapter\<close>,
  \<^verbatim>\<open>defaultTtl\<close> (milliseconds) and \<^verbatim>\<open>isCacheable\<close>, the variable \<^verbatim>\<open>lastPurgeTime\<close>, and
  the table behind \<^verbatim>\<open>db\<close>.
\<close>

record 'p SqliteStore =
  serializerAdapter :: "'p serializer"
  defaultTtl :: int
  isCacheable :: "jsval \<Rightarrow> bool"
  lastPurgeTime :: int
  db :: "'p CacheRow list"

text \<open>
  \<^verbatim>\<open>SqliteCacheOptions\<close>: the selected serializer (the source looks the name up in
  \<^verbatim>\<open>serializers\<close>), the optional \<^verbatim>\<open>ttl\<close> in seconds and the optional \<^verbatim>\<open>isCacheable\<close>.
  The table name and the path only choose which table is used.
\<close>

record 'p SqliteCacheOptions =
  opt_serializer :: "'p serializer"
  opt_ttl :: "int option"
  opt_isCacheable :: "(jsval \<Rightarrow> bool) option"

text \<open>
  \<^verbatim>\<open>value => value !== undefined && value !== null && typeof value !== 'function'\<close>
\<close>

definition default_isCacheable :: "jsval \<Rightarrow> bool" where
  "default_isCacheable v \<longleftrightarrow> v \<noteq> JUndefined \<and> v \<noteq> JNull \<and> v \<noteq> JFunction"

text \<open>
  The constructor. \<open>tbl\<close> is the content of the table found at the path
  (\<^verbatim>\<open>CREATE TABLE IF NOT EXISTS\<close> keeps it); it is empty for \<^verbatim>\<open>:memory:\<close>.
\<close>

definition bunSqliteStore :: "'p SqliteCacheOptions \<Rightarrow> 'p CacheRow list \<Rightarrow> 'p SqliteStore" where
  "bunSqliteStore options tbl =
     \<lparr> serializerAdapter = opt_serializer options,
       defaultTtl = (case opt_ttl options of None \<Rightarrow> 24 * 60 * 60 | Some t \<Rightarrow> t) * 1000,
       isCacheable = (case opt_isCacheable options of None \<Rightarrow> default_isCacheable | Some f \<Rightarrow> f),
       lastPurgeTime = 0,
       db = tbl \<rparr>"

subsection \<open>Operations\<close>

text \<open>\<^verbatim>\<open>INSERT OR REPLACE INTO t(key, val, created_at, expire_at) VALUES (?, ?, ?, ?)\<close>\<close>

definition insert_or_replace :: "'p CacheRow \<Rightarrow> 'p CacheRow list \<Rightarrow> 'p CacheRow list" where
  "insert_or_replace r tbl = filter (\<lambda>x. key x \<noteq> key r) tbl @ [r]"

text \<open>
  \<^verbatim>\<open>purgeExpired\<close>: once an hour has passed since the last purge,
  \<^verbatim>\<open>DELETE FROM t WHERE expire_at < now\<close>.
\<close>

definition purgeExpired :: "'p SqliteStore \<Rightarrow> int \<Rightarrow> 'p SqliteStore" where
  "purgeExpired st now =
     (if now - lastPurgeTime st \<ge> 60 * 60 * 1000
      then st\<lparr>db := filter (\<lambda>r. \<not> expire_at r < now) (db st), lastPurgeTime := now\<rparr>
      else st)"

text \<open>
  \<^verbatim>\<open>set(key, value, ttl?)\<close>. \<open>now1\<close> is the reading added to the time to live,
  \<open>now2\<close> the reading bound to \<^verbatim>\<open>created_at\<close>, \<open>str\<close> the string conversion of the
  runtime.
\<close>

definition set_fn ::
  "(jsval \<Rightarrow> string + string) \<Rightarrow> 'p SqliteStore \<Rightarrow> string \<Rightarrow> jsval \<Rightarrow> int option \<Rightarrow> int \<Rightarrow> int
     \<Rightarrow> (error + unit) \<times> 'p SqliteStore" where
  "set_fn str st k v ttl now1 now2 =
     (let ttlValue = (case ttl of Some t \<Rightarrow> t * 1000 | None \<Rightarrow> defaultTtl st) in
      if ttlValue < 0 then (Inr (), st)
      else if \<not> isCacheable st v then (Inl (throw_NoCacheableError str v), st)
      else
        let expireAt = now1 + ttlValue in
        case serialize (serializerAdapter st) v of
          Inl msg \<Rightarrow> (Inl (Thrown msg), st)
        | Inr serializedVal \<Rightarrow>
            (Inr (),
             st\<lparr>db := insert_or_replace
                    \<lparr>key = k, val = serializedVal, created_at = now2, expire_at = expireAt\<rparr>
                    (db st)\<rparr>))"

text \<open>
  \<^verbatim>\<open>get(key)\<close>: the purge with reading \<open>now1\<close>, then
  \<^verbatim>\<open>SELECT * FROM t WHERE key = ? AND expire_at > ? LIMIT 1\<close> with reading \<open>now2\<close>.
  Without a row the function returns \<^verbatim>\<open>undefined\<close>.
\<close>

definition get ::
  "'p SqliteStore \<Rightarrow> string \<Rightarrow> int \<Rightarrow> int \<Rightarrow> (error + jsval) \<times> 'p SqliteStore" where
  "get st k now1 now2 =
     (let st' = purgeExpired st now1 in
      case filter (\<lambda>r. key r = k \<and> expire_at r > now2) (db st') of
        [] \<Rightarrow> (Inr JUndefined, st')
      | r # _ \<Rightarrow>
          (case deserialize (serializerAdapter st') (val r) of
             Inl msg \<Rightarrow> (Inl (Thrown msg), st')
           | Inr v \<Rightarrow> (Inr v, st')))"

text \<open>
  The callback of \<^verbatim>\<open>pairs.flatMap\<close> in \<^verbatim>\<open>mset\<close>, pair by pair: the check, the
  serialization, then \<^verbatim>\<open>Date.now()\<close> for \<^verbatim>\<open>created_at\<close>; \<open>clock i\<close> is the reading
  taken for the pair at index \<open>i\<close>. The first throw ends the loop.
\<close>

fun bindings ::
  "(jsval \<Rightarrow> string + string) \<Rightarrow> 'p SqliteStore \<Rightarrow> int \<Rightarrow> (nat \<Rightarrow> int) \<Rightarrow> nat
     \<Rightarrow> (string \<times> jsval) list \<Rightarrow> error + 'p CacheRow list" where
  "bindings str st expireAt clock i [] = Inr []"
| "bindings str st expireAt clock i ((k, v) # pairs) =
     (if \<not> isCacheable st v then Inl (throw_NoCacheableError str v)
      else
        case serialize (serializerAdapter st) v of
          Inl msg \<Rightarrow> Inl (Thrown msg)
        | Inr serializedVal \<Rightarrow>
            (case bindings str st expireAt clock (Suc i) pairs of
               Inl e \<Rightarrow> Inl e
             | Inr rows \<Rightarrow>
                 Inr (\<lparr>key = k, val = serializedVal, created_at = clock i, expire_at = expireAt\<rparr>
                      # rows)))"

text \<open>
  \<^verbatim>\<open>mset(pairs, ttl?)\<close>. \<open>now0\<close> is the reading added to the time to live. One
  statement upserts the rows in order. With no pair the statement text ends after
  \<^verbatim>\<open>VALUES\<close> and the engine refuses it.
\<close>

definition mset ::
  "(jsval \<Rightarrow> string + string) \<Rightarrow> 'p SqliteStore \<Rightarrow> (string \<times> jsval) list \<Rightarrow> int option \<Rightarrow> int
     \<Rightarrow> (nat \<Rightarrow> int) \<Rightarrow> (error + unit) \<times> 'p SqliteStore" where
  "mset str st pairs ttl now0 clock =
     (let ttlValue = (case ttl of Some t \<Rightarrow> t * 1000 | None \<Rightarrow> defaultTtl st) in
      if ttlValue < 0 then (Inr (), st)
      else
        let expireAt = now0 + ttlValue in
        case bindings str st expireAt clock 0 pairs of
          Inl e \<Rightarrow> (Inl e, st)
        | Inr rows \<Rightarrow>
            if pairs = [] then (Inl (SqliteError ''incomplete input''), st)
            else (Inr (), st\<lparr>db := foldl (\<lambda>tbl r. insert_or_replace r tbl) (db st) rows\<rparr>))"

text \<open>
  \<^verbatim>\<open>keys()\<close>: the purge, then \<^verbatim>\<open>SELECT key FROM t\<close>. The statement has no
  \<^verbatim>\<open>ORDER BY\<close>; the engine answers it from the index of the primary key, so the keys
  come back in the bytewise order of the text.
\<close>

definition keys :: "'p SqliteStore \<Rightarrow> int \<Rightarrow> string list \<times> 'p SqliteStore" where
  "keys st now =
     (let st' = purgeExpired st now in (sort (map key (db st')), st'))"

text \<open>
  \<^verbatim>\<open>ttl(key)\<close>: the purge with reading \<open>now1\<close>, then
  \<^verbatim>\<open>SELECT expire_at FROM t WHERE key = ?\<close>; \<open>now2\<close> is the reading subtracted.
\<close>

definition ttlFn :: "'p SqliteStore \<Rightarrow> string \<Rightarrow> int \<Rightarrow> int \<Rightarrow> int \<times> 'p SqliteStore" where
  "ttlFn st k now1 now2 =
     (let st' = purgeExpired st now1 in
      case filter (\<lambda>r. key r = k) (db st') of
        [] \<Rightarrow> (- 1, st')
      | r # _ \<Rightarrow> (expire_at r - now2, st'))"

subsection \<open>A serializer and a store to run the operations on\<close>

text \<open>
  The \<^verbatim>\<open>json\<close> entry of \<^verbatim>\<open>serializers\<close> is \<^verbatim>\<open>JSON.stringify\<close> with \<^verbatim>\<open>JSON.parse\<close>.
  \<open>json_sample\<close> is a finite table of what these two do: \<^verbatim>\<open>null\<close>, \<^verbatim>\<open>true\<close> and
  \<^verbatim>\<open>false\<close> are printed and read back, \<^verbatim>\<open>[undefined]\<close> is printed as \<^verbatim>\<open>[null]\<close>
  and read back as \<^verbatim>\<open>[null]\<close>, printing a BigInt throws a TypeError, and reading
  \<^verbatim>\<open>~junk~\<close> throws a SyntaxError. Outside the table \<open>json_sample\<close> throws; the
  concrete runs below stay inside it.
\<close>

fun json_sample_stringify :: "jsval \<Rightarrow> string + string" where
  "json_sample_stringify JNull = Inr ''null''"
| "json_sample_stringify (JBool True) = Inr ''true''"
| "json_sample_stringify (JBool False) = Inr ''false''"
| "json_sample_stringify (JArr [JUndefined]) = Inr ''[null]''"
| "json_sample_stringify (JArr [JNull]) = Inr ''[null]''"
| "json_sample_stringify (JBigInt n) = Inl ''TypeError: JSON.stringify cannot serialize BigInt''"
| "json_sample_stringify v = Inl ''not in the sample''"

definition json_sample_parse :: "string \<Rightarrow> string + jsval" where
  "json_sample_parse p =
     (if p = ''null'' then Inr JNull
      else if p = ''true'' then Inr (JBool True)
      else if p = ''false'' then Inr (JBool False)
      else if p = ''[null]'' then Inr (JArr [JNull])
      else Inl ''SyntaxError: JSON Parse error'')"

definition json_sample :: "string serializer" where
  "json_sample = \<lparr> serialize = json_sample_stringify, deserialize = json_sample_parse \<rparr>"

text \<open>
  \<open>template_sample\<close> is a finite table of the string conversion in a template
  literal: \<^verbatim>\<open>undefined\<close>, \<^verbatim>\<open>null\<close>, \<^verbatim>\<open>true\<close> and \<^verbatim>\<open>false\<close> give their names, a
  string gives itself, a Symbol throws a TypeError. Outside the table
  \<open>template_sample\<close> throws.
\<close>

fun template_sample :: "jsval \<Rightarrow> string + string" where
  "template_sample JUndefined = Inr ''undefined''"
| "template_sample JNull = Inr ''null''"
| "template_sample (JBool True) = Inr ''true''"
| "template_sample (JBool False) = Inr ''false''"
| "template_sample (JStr s) = Inr s"
| "template_sample JSymbol = Inl ''TypeError: Cannot convert a symbol to a string''"
| "template_sample v = Inl ''not in the sample''"

text \<open>
  A store over an empty in-memory table with the default options
  (\<^verbatim>\<open>ttl\<close> of one day, the default predicate).
\<close>

definition memory_store :: "string SqliteStore" where
  "memory_store =
     bunSqliteStore \<lparr> opt_serializer = json_sample, opt_ttl = None, opt_isCacheable = None \<rparr> []"

text \<open>
  The predicate of the repository's test of a custom \<^verbatim>\<open>isCacheable\<close>,
  \<^verbatim>\<open>value => typeof value === 'string'\<close>, and an in-memory store that uses it.
\<close>

definition strings_only :: "jsval \<Rightarrow> bool" where
  "strings_only v = (case v of JStr s \<Rightarrow> True | _ \<Rightarrow> False)"

definition strings_store :: "string SqliteStore" where
  "strings_store =
     bunSqliteStore
       \<lparr> opt_serializer = json_sample, opt_ttl = None, opt_isCacheable = Some strings_only \<rparr> []"

text \<open>
  A clock for the runs of \<open>mset\<close>: the reading for the pair at index \<open>i\<close> is
  \<open>i\<close> milliseconds after \<open>t\<close>.
\<close>

definition ticking :: "int \<Rightarrow> nat \<Rightarrow> int" where
  "ticking t i = t + int i"

lemmas run_defs =
  memory_store_def bunSqliteStore_def default_isCacheable_def set_fn_def get_def mset_def
  keys_def ttlFn_def purgeExpired_def insert_or_replace_def json_sample_def
  json_sample_parse_def ticking_def throw_NoCacheableError_def strings_only_def
  strings_store_def

section \<open>Facts about the table\<close>

lemma db_purgeExpired:
  "db (purgeExpired st now) =
     (if 60 * 60 * 1000 \<le> now - lastPurgeTime st
      then filter (\<lambda>r. now \<le> expire_at r) (db st) else db st)"
  by (simp add: purgeExpired_def not_less)

lemma serializerAdapter_purgeExpired [simp]:
  "serializerAdapter (purgeExpired st now) = serializerAdapter st"
  by (simp add: purgeExpired_def)

text \<open>After an upsert the rows of that key are the new row alone.\<close>

lemma filter_key_insert_or_replace:
  "filter (\<lambda>x. key x = key r \<and> P x) (insert_or_replace r tbl) = (if P r then [r] else [])"
  by (simp add: insert_or_replace_def filter_empty_conv)

text \<open>The select of \<open>get\<close> after the purge, as one filter of the table before it.\<close>

lemma filter_key_purged:
  "filter (\<lambda>x. key x = k \<and> t < expire_at x) (db (purgeExpired st now))
   = filter (\<lambda>x. key x = k \<and> t < expire_at x
                  \<and> (60 * 60 * 1000 \<le> now - lastPurgeTime st \<longrightarrow> now \<le> expire_at x)) (db st)"
  by (auto simp add: db_purgeExpired intro: filter_cong)

lemma filter_key_hd:
  "find (\<lambda>r. key r = k) tbl = Some r \<Longrightarrow> Q r \<Longrightarrow>
   \<exists>rest. filter (\<lambda>x. key x = k) (filter Q tbl) = r # rest"
  by (induction tbl) (auto split: if_splits)

section \<open>Facts about the bindings of mset\<close>

text \<open>A value that the predicate rejects makes the loop throw.\<close>

lemma bindings_rejects:
  assumes "find (\<lambda>(k, v). \<not> isCacheable st v) pairs = Some (k0, v0)"
  shows "\<exists>e. bindings str st expireAt clock i pairs = Inl e"
  using assms
  by (induction str st expireAt clock i pairs rule: bindings.induct)
     (auto split: sum.splits if_splits)

text \<open>
  It throws what the \<^verbatim>\<open>throw\<close> statement gives for the first rejected value when
  the serializer accepts the values before it.
\<close>

lemma bindings_NoCacheable:
  assumes "find (\<lambda>(k, v). \<not> isCacheable st v) pairs = Some (k0, v0)"
      and "\<forall>(k, v) \<in> set (takeWhile (\<lambda>(k, v). isCacheable st v) pairs).
             \<exists>p. serialize (serializerAdapter st) v = Inr p"
  shows "bindings str st expireAt clock i pairs = Inl (throw_NoCacheableError str v0)"
  using assms
proof (induction pairs arbitrary: i)
  case Nil
  then show ?case by simp
next
  case (Cons kv pairs)
  obtain k v where kv: "kv = (k, v)" by (cases kv)
  show ?case
  proof (cases "isCacheable st v")
    case False
    with Cons.prems(1) kv show ?thesis by simp
  next
    case True
    with Cons.prems(2) kv obtain p where p: "serialize (serializerAdapter st) v = Inr p"
      by auto
    from True Cons.prems kv
    have "bindings str st expireAt clock (Suc i) pairs = Inl (throw_NoCacheableError str v0)"
      by (intro Cons.IH) auto
    with True p kv show ?thesis by simp
  qed
qed

text \<open>
  The rows of a batch that goes through: the keys in order, one \<^verbatim>\<open>expire_at\<close> for
  all of them, and for \<^verbatim>\<open>created_at\<close> the clock reading of each pair.
\<close>

lemma bindings_timestamps:
  "bindings str st expireAt clock i pairs = Inr rows \<Longrightarrow>
     map key rows = map fst pairs
     \<and> map expire_at rows = replicate (length pairs) expireAt
     \<and> map created_at rows = map clock [i ..< i + length pairs]"
proof (induction pairs arbitrary: i rows)
  case Nil
  then show ?case by simp
next
  case (Cons kv pairs)
  obtain k v where kv: "kv = (k, v)" by (cases kv)
  from Cons.prems kv obtain p rest where
    rest: "bindings str st expireAt clock (Suc i) pairs = Inr rest"
    and rows: "rows = \<lparr>key = k, val = p, created_at = clock i, expire_at = expireAt\<rparr> # rest"
    by (auto split: if_splits sum.splits)
  have "[i ..< i + length (kv # pairs)] = i # [Suc i ..< Suc i + length pairs]"
    using upt_conv_Cons [of i "i + Suc (length pairs)"] by (simp del: upt_Suc)
  with Cons.IH [OF rest] rows kv show ?case by simp
qed

text \<open>
  A batch with a rejected value is never written in part: \<open>mset\<close> leaves the store
  as it was and rejects, and it rejects with what the \<^verbatim>\<open>throw\<close> statement gives for
  the first rejected value when the serializer accepts the values before it.
\<close>

lemma mset_rejects_whole_batch:
  assumes ttl: "0 \<le> (case ttl of Some t \<Rightarrow> t * 1000 | None \<Rightarrow> defaultTtl st)"
      and first: "find (\<lambda>(k, v). \<not> isCacheable st v) pairs = Some (k0, v0)"
  shows "snd (mset str st pairs ttl now0 clock) = st
         \<and> (\<exists>e. fst (mset str st pairs ttl now0 clock) = Inl e)
         \<and> ((\<forall>(k, v) \<in> set (takeWhile (\<lambda>(k, v). isCacheable st v) pairs).
                \<exists>p. serialize (serializerAdapter st) v = Inr p)
              \<longrightarrow> fst (mset str st pairs ttl now0 clock) = Inl (throw_NoCacheableError str v0))"
proof -
  let ?e = "now0 + (case ttl of Some t \<Rightarrow> t * 1000 | None \<Rightarrow> defaultTtl st)"
  from first obtain e where e: "bindings str st ?e clock 0 pairs = Inl e"
    using bindings_rejects by blast
  with ttl have m: "mset str st pairs ttl now0 clock = (Inl e, st)"
    by (simp add: mset_def Let_def not_less [symmetric])
  have "e = throw_NoCacheableError str v0"
    if "\<forall>(k, v) \<in> set (takeWhile (\<lambda>(k, v). isCacheable st v) pairs).
          \<exists>p. serialize (serializerAdapter st) v = Inr p"
    using bindings_NoCacheable [OF first that, of str ?e clock 0] e by simp
  with m show ?thesis by simp
qed

text \<open>
  The message of the repository's tests of the predicate, on a value with a string
  conversion; and the exception of the conversion on a value without one, under a
  predicate that accepts strings only.
\<close>

lemma set_rejects_undefined:
  "set_fn template_sample memory_store ''k'' JUndefined None 1700000000000 1700000000000
   = (Inl (NoCacheableError (CHR 0x22 # ''undefined'' @ CHR 0x22 # '' is not a cacheable value'')),
      memory_store)"
  by (simp add: run_defs)

lemma set_rejects_symbol:
  "set_fn template_sample strings_store ''k'' JSymbol None 1700000000000 1700000000000
   = (Inl (Thrown ''TypeError: Cannot convert a symbol to a string''), strings_store)"
  by (simp add: run_defs)

section \<open>Exceptions of the serializer\<close>

text \<open>
  Neither \<open>get\<close> nor \<open>set\<close> catches what the serializer pair throws: with any
  serializer, the exception is the outcome of the call.
\<close>

lemma get_deserialize_throws:
  assumes "filter (\<lambda>r. key r = k \<and> now2 < expire_at r) (db (purgeExpired st now1)) = r # rest"
      and "deserialize (serializerAdapter st) (val r) = Inl msg"
  shows "fst (get st k now1 now2) = Inl (Thrown msg)"
  using assms by (simp add: get_def)

lemma set_serialize_throws:
  assumes "0 \<le> (case ttl of Some t \<Rightarrow> t * 1000 | None \<Rightarrow> defaultTtl st)"
      and "isCacheable st v"
      and "serialize (serializerAdapter st) v = Inl msg"
  shows "set_fn str st k v ttl now1 now2 = (Inl (Thrown msg), st)"
  using assms by (simp add: set_fn_def Let_def not_less [symmetric])

section \<open>Writing and reading back\<close>

text \<open>
  C1, as amended. For a value \<open>v\<close> that the predicate accepts and that the serializer
  carries faithfully (it serializes \<open>v\<close> to a payload \<open>p\<close> and deserializes \<open>p\<close> to
  \<open>v\<close>), \<open>set\<close> with the default time to live returns normally, and a \<open>get\<close> of the
  same key returns \<open>v\<close>, as long as the clock readings of \<open>get\<close> do not go backwards
  and its second reading is between the reading of \<open>set\<close> and the expiry
  \<open>now1 + defaultTtl\<close>. The store adds nothing to and takes nothing from what the
  serializer pair does to the value.
\<close>

theorem set_then_get:
  assumes cacheable: "isCacheable st v"
      and ser: "serialize (serializerAdapter st) v = Inr p"
      and de: "deserialize (serializerAdapter st) p = Inr v"
      and clock: "now3 \<le> now4"
      and live: "now4 < now1 + defaultTtl st"
      and later: "now1 \<le> now4"
  shows "fst (set_fn str st k v None now1 now2) = Inr ()
         \<and> fst (get (snd (set_fn str st k v None now1 now2)) k now3 now4) = Inr v"
proof -
  let ?r = "\<lparr>key = k, val = p, created_at = now2, expire_at = now1 + defaultTtl st\<rparr>"
  let ?st = "st\<lparr>db := insert_or_replace ?r (db st)\<rparr>"
  from live later have pos: "\<not> defaultTtl st < 0" by simp
  with cacheable ser have s: "set_fn str st k v None now1 now2 = (Inr (), ?st)"
    by (simp add: set_fn_def)
  have "filter (\<lambda>x. key x = k \<and> now4 < expire_at x) (db (purgeExpired ?st now3)) = [?r]"
    using live clock filter_key_insert_or_replace [of ?r _ "db st"]
    by (simp add: filter_key_purged)
  then have "fst (get ?st k now3 now4) = Inr v"
    using de by (simp add: get_def)
  with s show ?thesis by simp
qed

theorem set_then_get_witness:
  "isCacheable memory_store (JBool True)
   \<and> serialize (serializerAdapter memory_store) (JBool True) = Inr ''true''
   \<and> deserialize (serializerAdapter memory_store) ''true'' = Inr (JBool True)
   \<and> (1700000000000 :: int) \<le> 1700000000000
   \<and> 1700000000000 < 1700000000000 + defaultTtl memory_store
   \<and> fst (set_fn template_sample memory_store ''k'' (JBool True) None 1700000000000 1700000000000) = Inr ()
   \<and> fst (get (snd (set_fn template_sample memory_store ''k'' (JBool True) None 1700000000000 1700000000000))
            ''k'' 1700000000000 1700000000000) = Inr (JBool True)"
proof -
  have a: "isCacheable memory_store (JBool True)" by (simp add: run_defs)
  have b: "serialize (serializerAdapter memory_store) (JBool True) = Inr ''true''"
    by (simp add: run_defs)
  have c: "deserialize (serializerAdapter memory_store) ''true'' = Inr (JBool True)"
    by (simp add: run_defs)
  have d: "(1700000000000 :: int) \<le> 1700000000000" by simp
  have e: "1700000000000 < 1700000000000 + defaultTtl memory_store" by (simp add: run_defs)
  from a b c d e set_then_get [OF a b c d e d, of template_sample "''k''" 1700000000000] show ?thesis
    by simp
qed

text \<open>
  C1 as stated, for every value that the predicate accepts, fails: \<^verbatim>\<open>[undefined]\<close> is
  accepted by the default predicate, \<^verbatim>\<open>JSON.stringify\<close> prints it as \<^verbatim>\<open>[null]\<close>, and
  the \<open>get\<close> that follows at once returns \<^verbatim>\<open>[null]\<close>.
\<close>

theorem set_then_get_counterexample:
  "isCacheable memory_store (JArr [JUndefined])
   \<and> fst (set_fn template_sample memory_store ''k'' (JArr [JUndefined]) None 1700000000000 1700000000000) = Inr ()
   \<and> fst (get (snd (set_fn template_sample memory_store ''k'' (JArr [JUndefined]) None 1700000000000 1700000000000))
            ''k'' 1700000000000 1700000000000) = Inr (JArr [JNull])
   \<and> JArr [JNull] \<noteq> JArr [JUndefined]"
  by (simp add: run_defs)

section \<open>Listing the keys\<close>

text \<open>
  C2, as amended. \<open>keys\<close> returns the keys of the rows that are in the table after
  its purge: a key is listed exactly when the table holds a row of that key which
  the purge keeps. The purge runs only when an hour or more has passed since the
  last one, and then it removes the rows with \<open>expire_at < now\<close>; so when the purge
  is due, every listed key has a row with \<open>now \<le> expire_at\<close>, and when it is not
  due, every row is listed, expired or not.
\<close>

theorem keys_after_purge:
  "k \<in> set (fst (keys st now)) \<longleftrightarrow>
     (\<exists>r \<in> set (db st). key r = k
        \<and> (60 * 60 * 1000 \<le> now - lastPurgeTime st \<longrightarrow> now \<le> expire_at r))"
  by (auto simp add: keys_def db_purgeExpired)

theorem keys_after_purge_witness:
  "60 * 60 * 1000 \<le> 1700000060000 - lastPurgeTime (snd (set_fn template_sample memory_store ''k'' (JBool True) (Some 1) 1700000000000 1700000000000))
   \<and> ''k'' \<notin> set (fst (keys (snd (set_fn template_sample memory_store ''k'' (JBool True) (Some 1) 1700000000000 1700000000000)) 1700000060000))
   \<and> ''k'' \<in> set (fst (keys (snd (set_fn template_sample memory_store ''k'' (JBool True) (Some 1) 1700000000000 1700000000000)) 1700000000500))"
  using keys_after_purge [of "''k''" "snd (set_fn template_sample memory_store ''k'' (JBool True) (Some 1) 1700000000000 1700000000000)" 1700000060000]
        keys_after_purge [of "''k''" "snd (set_fn template_sample memory_store ''k'' (JBool True) (Some 1) 1700000000000 1700000000000)" 1700000000500]
  by (simp add: run_defs)

text \<open>
  C2 as stated fails. On a new store a first \<open>get\<close> runs the purge and records its
  time. One millisecond later \<open>set\<close> writes \<open>k\<close> with a time to live of one second.
  A minute after the first \<open>get\<close> the row is expired, the purge is not due, and
  \<open>keys\<close> lists \<open>k\<close>.
\<close>

theorem keys_lists_expired_counterexample:
  "map expire_at (db (snd (set_fn template_sample (snd (get memory_store ''k'' 1700000000000 1700000000000))
                             ''k'' (JBool True) (Some 1) 1700000000001 1700000000001)))
     = [1700000001001]
   \<and> (1700000001001 :: int) \<le> 1700000060000
   \<and> fst (keys (snd (set_fn template_sample (snd (get memory_store ''k'' 1700000000000 1700000000000))
                       ''k'' (JBool True) (Some 1) 1700000000001 1700000000001))
            1700000060000) = [''k'']"
  by (simp add: run_defs)

section \<open>A payload that cannot be deserialized\<close>

text \<open>
  C3 says that \<open>get\<close> returns the miss value when the payload of a live row cannot
  be deserialized. The repository's test of junk stored values says the same, for
  the row \<^verbatim>\<open>{key: 'foo', val: '~junk~', created_at: ts, expire_at: ts + 36000}\<close>. On
  that row \<open>get\<close> rejects with the SyntaxError of \<^verbatim>\<open>JSON.parse\<close>; the table is
  untouched.
\<close>

theorem get_junk_payload_rejects:
  "get (bunSqliteStore \<lparr> opt_serializer = json_sample, opt_ttl = None, opt_isCacheable = None \<rparr>
          [\<lparr>key = ''foo'', val = ''~junk~'', created_at = 1700000000000, expire_at = 1700000036000\<rparr>])
       ''foo'' 1700000000000 1700000000000
   = (Inl (Thrown ''SyntaxError: JSON Parse error''),
      \<lparr> serializerAdapter = json_sample, defaultTtl = 86400000, isCacheable = default_isCacheable,
        lastPurgeTime = 1700000000000,
        db = [\<lparr>key = ''foo'', val = ''~junk~'', created_at = 1700000000000, expire_at = 1700000036000\<rparr>] \<rparr>)"
  by (simp add: run_defs)

section \<open>A value that cannot be serialized\<close>

text \<open>
  C4 says that \<open>set\<close> drops the write and returns normally when the serializer
  throws on a value that the predicate accepts. No row is written, but the call
  rejects: a BigInt passes the default predicate, \<^verbatim>\<open>JSON.stringify\<close> throws a
  TypeError on it, and that TypeError is the outcome of \<open>set\<close>.
\<close>

theorem set_unserializable_rejects:
  "isCacheable memory_store (JBigInt 10)
   \<and> set_fn template_sample memory_store ''k'' (JBigInt 10) None 1700000000000 1700000000000
     = (Inl (Thrown ''TypeError: JSON.stringify cannot serialize BigInt''), memory_store)"
  by (simp add: run_defs)

section \<open>A batch with a value that is not cacheable\<close>

text \<open>
  C5 says that a batch with a value that the predicate rejects is not written at
  all and that \<open>mset\<close> signals \<^verbatim>\<open>NoCacheableError\<close>. The batch is not written, but
  with a BigInt before the rejected value the TypeError of \<^verbatim>\<open>JSON.stringify\<close> ends
  the loop first, nothing catches it, and \<open>mset\<close> rejects with it instead of
  \<^verbatim>\<open>NoCacheableError\<close>.
\<close>

theorem mset_serializer_throws_first:
  "\<not> isCacheable memory_store JUndefined
   \<and> mset template_sample memory_store [(''a'', JBigInt 10), (''b'', JUndefined)] None
        1700000000000 (ticking 1700000000000)
       = (Inl (Thrown ''TypeError: JSON.stringify cannot serialize BigInt''), memory_store)"
  by (simp add: run_defs)

section \<open>Negative time to live\<close>

text \<open>
  C6. With \<open>ttlSeconds < 0\<close>, \<open>set\<close> returns normally and leaves the store as it
  was, whatever the key and the value; so does \<open>mset\<close>, whatever the batch. A \<open>get\<close>
  after such a \<open>set\<close> returns what it returns without it.
\<close>

theorem negative_ttl_is_noop:
  assumes "ttlSeconds < 0"
  shows "set_fn str st k v (Some ttlSeconds) now1 now2 = (Inr (), st)
         \<and> mset str st pairs (Some ttlSeconds) now0 clock = (Inr (), st)
         \<and> get (snd (set_fn str st k v (Some ttlSeconds) now1 now2)) k now3 now4 = get st k now3 now4"
  using assms by (simp add: set_fn_def mset_def)

theorem negative_ttl_is_noop_witness:
  "(- 1 :: int) < 0
   \<and> set_fn template_sample memory_store ''k'' (JBool True) (Some (- 1)) 1700000000000 1700000000000 = (Inr (), memory_store)
   \<and> mset template_sample memory_store [(''a'', JBool True), (''b'', JBool False)] (Some (- 1)) 1700000000000 (ticking 1700000000000)
       = (Inr (), memory_store)
   \<and> fst (get (snd (set_fn template_sample memory_store ''k'' (JBool True) (Some (- 1)) 1700000000000 1700000000000))
            ''k'' 1700000000000 1700000000000) = Inr JUndefined"
proof -
  have a: "(- 1 :: int) < 0" by simp
  have b: "fst (get memory_store ''k'' 1700000000000 1700000000000) = Inr JUndefined"
    by (simp add: run_defs)
  from a b negative_ttl_is_noop [OF a, of template_sample memory_store "''k''" "JBool True" 1700000000000 1700000000000
      "[(''a'', JBool True), (''b'', JBool False)]" 1700000000000 "ticking 1700000000000"
      1700000000000 1700000000000]
  show ?thesis by simp
qed

section \<open>Zero time to live\<close>

text \<open>
  C7, as amended. For a value that the predicate accepts and that the serializer
  serializes, \<open>set\<close> with a time to live of zero upserts a row whose \<^verbatim>\<open>expire_at\<close> is
  the clock reading \<open>now1\<close> of the call, and a \<open>get\<close> of that key whose second reading
  is \<open>now1\<close> or later returns \<^verbatim>\<open>undefined\<close>.
\<close>

theorem set_zero_ttl_then_get_misses:
  assumes cacheable: "isCacheable st v"
      and ser: "serialize (serializerAdapter st) v = Inr p"
      and later: "now1 \<le> now4"
  shows "set_fn str st k v (Some 0) now1 now2
           = (Inr (), st\<lparr>db := insert_or_replace
                               \<lparr>key = k, val = p, created_at = now2, expire_at = now1\<rparr> (db st)\<rparr>)
         \<and> fst (get (snd (set_fn str st k v (Some 0) now1 now2)) k now3 now4) = Inr JUndefined"
proof -
  let ?r = "\<lparr>key = k, val = p, created_at = now2, expire_at = now1\<rparr>"
  let ?st = "st\<lparr>db := insert_or_replace ?r (db st)\<rparr>"
  from cacheable ser have s: "set_fn str st k v (Some 0) now1 now2 = (Inr (), ?st)"
    by (simp add: set_fn_def)
  have "filter (\<lambda>x. key x = k \<and> now4 < expire_at x) (db (purgeExpired ?st now3)) = []"
    using later filter_key_insert_or_replace [of ?r _ "db st"]
    by (simp add: filter_key_purged)
  then have "fst (get ?st k now3 now4) = Inr JUndefined"
    by (simp add: get_def)
  with s show ?thesis by simp
qed

theorem set_zero_ttl_then_get_misses_witness:
  "isCacheable memory_store (JBool True)
   \<and> serialize (serializerAdapter memory_store) (JBool True) = Inr ''true''
   \<and> (1700000000000 :: int) \<le> 1700000000000
   \<and> map expire_at (db (snd (set_fn template_sample memory_store ''k'' (JBool True) (Some 0) 1700000000000 1700000000000)))
       = [1700000000000]
   \<and> fst (get (snd (set_fn template_sample memory_store ''k'' (JBool True) (Some 0) 1700000000000 1700000000000))
            ''k'' 1700000000000 1700000000000) = Inr JUndefined"
proof -
  have a: "isCacheable memory_store (JBool True)" by (simp add: run_defs)
  have b: "serialize (serializerAdapter memory_store) (JBool True) = Inr ''true''"
    by (simp add: run_defs)
  have c: "(1700000000000 :: int) \<le> 1700000000000" by simp
  have d: "db memory_store = []" by (simp add: run_defs)
  note t = set_zero_ttl_then_get_misses [OF a b c, of template_sample "''k''" 1700000000000 1700000000000]
  from t d
  have 1: "map expire_at (db (snd (set_fn template_sample memory_store ''k'' (JBool True) (Some 0) 1700000000000 1700000000000)))
             = [1700000000000]"
    by (simp add: insert_or_replace_def)
  from t
  have 2: "fst (get (snd (set_fn template_sample memory_store ''k'' (JBool True) (Some 0) 1700000000000 1700000000000))
                  ''k'' 1700000000000 1700000000000) = Inr JUndefined"
    by (rule conjunct2)
  from a b c 1 2 show ?thesis by simp
qed

text \<open>
  C7 as stated, for every value that the predicate accepts, fails on a value that
  the serializer refuses: \<open>set\<close> of a BigInt with a time to live of zero writes no
  row, and when the key already holds a live value, the \<open>get\<close> that follows returns
  that value.
\<close>

theorem set_zero_ttl_counterexample:
  "isCacheable memory_store (JBigInt 10)
   \<and> db (snd (set_fn template_sample memory_store ''k'' (JBigInt 10) (Some 0) 1700000000000 1700000000000)) = []
   \<and> fst (get (snd (set_fn template_sample (snd (set_fn template_sample memory_store ''k'' (JBool True) None 1700000000000 1700000000000))
                        ''k'' (JBigInt 10) (Some 0) 1700000000001 1700000000001))
            ''k'' 1700000000002 1700000000002) = Inr (JBool True)"
  by (simp add: run_defs)

section \<open>Remaining time to live\<close>

text \<open>
  C8, as amended. Let \<open>now2\<close> be the reading that \<open>ttl\<close> subtracts, and let the clock
  not go backwards within the call. When the row of \<open>k\<close> has \<open>expire_at > now2\<close>,
  \<open>ttl\<close> returns \<open>expire_at - now2\<close>, which is positive. When the row of \<open>k\<close> has
  \<open>expire_at = now2\<close>, the purge keeps it and \<open>ttl\<close> returns \<open>0\<close>. When the table has
  no row of \<open>k\<close>, \<open>ttl\<close> returns \<open>-1\<close>. When every row of \<open>k\<close> has \<open>expire_at < now2\<close>,
  purged or not, \<open>ttl\<close> returns a strictly negative value. So a result above zero
  tells a live key from an absent or expired one.
\<close>

theorem ttl_sign:
  "(find (\<lambda>r. key r = k) (db st) = Some r \<and> now2 < expire_at r \<and> now1 \<le> now2
      \<longrightarrow> fst (ttlFn st k now1 now2) = expire_at r - now2 \<and> 0 < fst (ttlFn st k now1 now2))
   \<and> (find (\<lambda>r. key r = k) (db st) = Some r \<and> expire_at r = now2 \<and> now1 \<le> now2
      \<longrightarrow> fst (ttlFn st k now1 now2) = 0)
   \<and> ((\<forall>x \<in> set (db st). key x \<noteq> k) \<longrightarrow> fst (ttlFn st k now1 now2) = - 1)
   \<and> ((\<forall>x \<in> set (db st). key x = k \<longrightarrow> expire_at x < now2)
      \<longrightarrow> fst (ttlFn st k now1 now2) < 0)"
proof (intro conjI impI)
  assume a: "find (\<lambda>r. key r = k) (db st) = Some r \<and> now2 < expire_at r \<and> now1 \<le> now2"
  then have "\<exists>rest. filter (\<lambda>x. key x = k) (db (purgeExpired st now1)) = r # rest"
    using filter_key_hd [of k "db st" r "\<lambda>r. now1 \<le> expire_at r"]
          filter_key_hd [of k "db st" r "\<lambda>r. True"]
    by (simp add: db_purgeExpired)
  then show "fst (ttlFn st k now1 now2) = expire_at r - now2"
    by (auto simp add: ttlFn_def)
  with a show "0 < fst (ttlFn st k now1 now2)" by simp
next
  assume a: "find (\<lambda>r. key r = k) (db st) = Some r \<and> expire_at r = now2 \<and> now1 \<le> now2"
  then have "\<exists>rest. filter (\<lambda>x. key x = k) (db (purgeExpired st now1)) = r # rest"
    using filter_key_hd [of k "db st" r "\<lambda>r. now1 \<le> expire_at r"]
          filter_key_hd [of k "db st" r "\<lambda>r. True"]
    by (simp add: db_purgeExpired)
  with a show "fst (ttlFn st k now1 now2) = 0"
    by (auto simp add: ttlFn_def)
next
  assume "\<forall>x \<in> set (db st). key x \<noteq> k"
  then have "filter (\<lambda>x. key x = k) (db (purgeExpired st now1)) = []"
    by (auto simp add: db_purgeExpired filter_empty_conv)
  then show "fst (ttlFn st k now1 now2) = - 1"
    by (simp add: ttlFn_def)
next
  assume a: "\<forall>x \<in> set (db st). key x = k \<longrightarrow> expire_at x < now2"
  show "fst (ttlFn st k now1 now2) < 0"
  proof (cases "filter (\<lambda>x. key x = k) (db (purgeExpired st now1))")
    case Nil
    then show ?thesis by (simp add: ttlFn_def)
  next
    case (Cons x xs)
    then have "x \<in> set (filter (\<lambda>x. key x = k) (db (purgeExpired st now1)))" by simp
    then have "x \<in> set (db st) \<and> key x = k"
      by (auto simp add: db_purgeExpired split: if_splits)
    with a have "expire_at x < now2" by blast
    with Cons show ?thesis by (simp add: ttlFn_def)
  qed
qed

theorem ttl_sign_witness:
  "fst (ttlFn (snd (set_fn template_sample memory_store ''k'' (JBool True) None 1700000000000 1700000000000))
          ''k'' 1700000000001 1700000000001) = 86399999
   \<and> fst (ttlFn (snd (set_fn template_sample memory_store ''k'' (JBool True) (Some 1) 1700000000000 1700000000000))
          ''k'' 1700000001000 1700000001000) = 0
   \<and> fst (ttlFn memory_store ''k'' 1700000000000 1700000000000) = - 1
   \<and> fst (ttlFn (snd (set_fn template_sample
                         (snd (get memory_store ''k'' 1700000000000 1700000000000))
                         ''k'' (JBool True) (Some 1) 1700000000001 1700000000001))
          ''k'' 1700000060000 1700000060000) < 0"
proof -
  let ?live = "snd (set_fn template_sample memory_store ''k'' (JBool True) None 1700000000000 1700000000000)"
  let ?r = "\<lparr>key = ''k'', val = ''true'', created_at = 1700000000000, expire_at = 1700086400000\<rparr>"
  let ?edge = "snd (set_fn template_sample memory_store ''k'' (JBool True) (Some 1) 1700000000000 1700000000000)"
  let ?q = "\<lparr>key = ''k'', val = ''true'', created_at = 1700000000000, expire_at = 1700000001000\<rparr>"
  let ?dead = "snd (set_fn template_sample
                      (snd (get memory_store ''k'' 1700000000000 1700000000000))
                      ''k'' (JBool True) (Some 1) 1700000000001 1700000000001)"
  have a: "find (\<lambda>r. key r = ''k'') (db ?live) = Some ?r \<and> 1700000000001 < expire_at ?r
           \<and> (1700000000001 :: int) \<le> 1700000000001"
    by (simp add: run_defs)
  have b: "find (\<lambda>r. key r = ''k'') (db ?edge) = Some ?q \<and> expire_at ?q = 1700000001000
           \<and> (1700000001000 :: int) \<le> 1700000001000"
    by (simp add: run_defs)
  have c: "\<forall>x \<in> set (db memory_store). key x \<noteq> ''k''" by (simp add: run_defs)
  have d: "\<forall>x \<in> set (db ?dead). key x = ''k'' \<longrightarrow> expire_at x < 1700000060000"
    by (simp add: run_defs)
  from a ttl_sign [of "''k''" ?live ?r 1700000000001 1700000000001]
  have 1: "fst (ttlFn ?live ''k'' 1700000000001 1700000000001) = 86399999" by simp
  from b ttl_sign [of "''k''" ?edge ?q 1700000001000 1700000001000]
  have 2: "fst (ttlFn ?edge ''k'' 1700000001000 1700000001000) = 0" by blast
  from c ttl_sign [of "''k''" memory_store _ 1700000000000 1700000000000]
  have 3: "fst (ttlFn memory_store ''k'' 1700000000000 1700000000000) = - 1" by simp
  from d ttl_sign [of "''k''" ?dead _ 1700000060000 1700000060000]
  have 4: "fst (ttlFn ?dead ''k'' 1700000060000 1700000060000) < 0" by blast
  from 1 2 3 4 show ?thesis by simp
qed

text \<open>
  C8 as stated, a strictly negative result for every expired key, fails at the
  instant of expiry: the row written with a time to live of zero has \<open>expire_at\<close>
  equal to the reading, the purge keeps it, and \<open>ttl\<close> returns \<open>0\<close>.
\<close>

theorem ttl_zero_counterexample:
  "map expire_at (db (snd (set_fn template_sample memory_store ''k'' (JBool True) (Some 0) 1700000000000 1700000000000)))
     = [1700000000000]
   \<and> fst (ttlFn (snd (set_fn template_sample memory_store ''k'' (JBool True) (Some 0) 1700000000000 1700000000000))
            ''k'' 1700000000000 1700000000000) = 0"
  by (simp add: run_defs)

section \<open>The timestamps of a written row\<close>

text \<open>
  C9 says that a written row has \<open>expire_at = created_at + ttl\<close> and that the rows of
  one \<open>mset\<close> share one \<open>created_at\<close>. \<open>set\<close> reads the clock once for \<open>expire_at\<close> and
  once more for \<open>created_at\<close>, and \<open>mset\<close> reads it once more for each pair. When the
  clock advances by a millisecond between the readings, a time to live of one
  second gives a row with \<open>expire_at = created_at + 999\<close>, and the two rows of a
  batch get different \<open>created_at\<close>.
\<close>

theorem written_rows_two_clock_readings:
  "db (snd (set_fn template_sample memory_store ''k'' (JBool True) (Some 1) 1700000000000 1700000000001))
     = [\<lparr>key = ''k'', val = ''true'', created_at = 1700000000001, expire_at = 1700000001000\<rparr>]
   \<and> db (snd (mset template_sample memory_store [(''a'', JBool True), (''b'', JBool False)] (Some 1)
                1700000000000 (ticking 1700000000001)))
     = [\<lparr>key = ''a'', val = ''true'', created_at = 1700000000001, expire_at = 1700000001000\<rparr>,
        \<lparr>key = ''b'', val = ''false'', created_at = 1700000000002, expire_at = 1700000001000\<rparr>]"
  by (simp add: run_defs)

section \<open>The order of the tests in set\<close>

text \<open>
  C10. In \<open>set\<close> the test of the time to live comes before the test of the value:
  with a value that the predicate rejects and a negative \<open>ttlSeconds\<close>, the call
  returns normally, without \<^verbatim>\<open>NoCacheableError\<close>, and the store is as before.
\<close>

theorem set_negative_ttl_precedes_cacheable:
  assumes "\<not> isCacheable st v" and "ttlSeconds < 0"
  shows "set_fn str st k v (Some ttlSeconds) now1 now2 = (Inr (), st)"
  using assms by (simp add: set_fn_def)

theorem set_negative_ttl_precedes_cacheable_witness:
  "\<not> isCacheable memory_store JUndefined \<and> (- 1 :: int) < 0
   \<and> set_fn template_sample memory_store ''k'' JUndefined (Some (- 1)) 1700000000000 1700000000000
       = (Inr (), memory_store)"
proof -
  have a: "\<not> isCacheable memory_store JUndefined" by (simp add: run_defs)
  have b: "(- 1 :: int) < 0" by simp
  from a b set_negative_ttl_precedes_cacheable [OF a b] show ?thesis by simp
qed

end
